theory Spec2Isabelle
  imports Complex_Main
begin

section \<open>The CKAN datastore provider of pygeoapi (pygeoapi/provider/ckan.py)\<close>

text \<open>
  The provider answers feature queries from a remote CKAN \<open>datastore_search\<close> endpoint.
  The model below follows \<open>ckan.py\<close> function by function. Python exceptions are values
  of \<open>py_error\<close>, a result is \<open>py_error + 'a\<close> with \<open>Inl\<close> the raised exception, a
  Python \<open>dict\<close> is an association list with the insertion semantics of \<open>dict\<close> (a
  repeated key keeps its first position and takes the last value), and the remote
  endpoint is a function from the number of the call and the request parameters to a
  response.
\<close>

subsection \<open>Python values\<close>

datatype py_error =
    KeyError
  | IndexError
  | ValueError
  | TypeError
  | AttributeError
  | JSONDecodeError
  | ProviderQueryError
  | ProviderConnectionError

text \<open>
  A \<open>dict\<close> with insertion order. \<open>dict_get\<close> is \<open>d.get(k)\<close>, \<open>dict_set\<close> is
  \<open>d[k] = v\<close>, \<open>dict_del\<close> removes a key, \<open>pop\<close> is \<open>d.pop(k)\<close>, which raises
  \<open>KeyError\<close> on a missing key and returns the value with the shrunken dict otherwise.
\<close>

type_synonym ('k, 'v) dict = "('k \<times> 'v) list"

fun dict_get :: "('k, 'v) dict \<Rightarrow> 'k \<Rightarrow> 'v option" where
  "dict_get [] k = None"
| "dict_get ((k', v) # d) k = (if k' = k then Some v else dict_get d k)"

fun dict_set :: "('k, 'v) dict \<Rightarrow> 'k \<Rightarrow> 'v \<Rightarrow> ('k, 'v) dict" where
  "dict_set [] k v = [(k, v)]"
| "dict_set ((k', v') # d) k v = (if k' = k then (k, v) # d else (k', v') # dict_set d k v)"

fun dict_del :: "('k, 'v) dict \<Rightarrow> 'k \<Rightarrow> ('k, 'v) dict" where
  "dict_del [] k = []"
| "dict_del ((k', v) # d) k = (if k' = k then dict_del d k else (k', v) # dict_del d k)"

definition keys :: "('k, 'v) dict \<Rightarrow> 'k list" where
  "keys d = map fst d"

definition pop :: "('k, 'v) dict \<Rightarrow> 'k \<Rightarrow> py_error + ('v \<times> ('k, 'v) dict)" where
  "pop d k = (case dict_get d k of None \<Rightarrow> Inl KeyError | Some v \<Rightarrow> Inr (v, dict_del d k))"

text \<open>\<open>d.update(other)\<close>: the entries of \<open>other\<close> are stored into \<open>d\<close> one by one.\<close>

fun dict_update :: "('k, 'v) dict \<Rightarrow> ('k \<times> 'v) list \<Rightarrow> ('k, 'v) dict" where
  "dict_update d [] = d"
| "dict_update d ((k, v) # kvs) = dict_update (dict_set d k v) kvs"

text \<open>\<open>sep.join(xs)\<close> on strings.\<close>

fun join :: "string \<Rightarrow> string list \<Rightarrow> string" where
  "join sep [] = []"
| "join sep [x] = x"
| "join sep (x # y # xs) = x @ sep @ join sep (y # xs)"

text \<open>
  The values a caller passes as an identifier or as the value of an equality filter, and
  that \<open>json.dumps\<close> serialises: \<open>None\<close>, booleans, integers, strings, lists and dicts
  with string keys. Floating-point values are left out: their \<open>repr\<close> is not modelled.
  A \<open>string\<close> is a list of code points below 256.
\<close>

datatype json =
    JNull
  | JBool bool
  | JInt int
  | JStr string
  | JArr "json list"
  | JObj "(string \<times> json) list"

text \<open>Truth value of a Python object, as \<open>if identifier:\<close> tests it.\<close>

fun truthy :: "json \<Rightarrow> bool" where
  "truthy JNull = False"
| "truthy (JBool b) = b"
| "truthy (JInt n) = (n \<noteq> 0)"
| "truthy (JStr s) = (s \<noteq> [])"
| "truthy (JArr xs) = (xs \<noteq> [])"
| "truthy (JObj kvs) = (kvs \<noteq> [])"

subsection \<open>\<open>json.dumps\<close> with its default arguments\<close>

text \<open>\<open>str(n)\<close> for an integer: decimal digits, a minus sign for a negative number.\<close>

definition digit_char :: "nat \<Rightarrow> char" where
  "digit_char n = ''0123456789abcdef'' ! (n mod 16)"

fun str_nat :: "nat \<Rightarrow> string" where
  "str_nat n = (if n < 10 then [digit_char n] else str_nat (n div 10) @ [digit_char (n mod 10)])"

definition str_int :: "int \<Rightarrow> string" where
  "str_int i = (if i < 0 then CHR ''-'' # str_nat (nat (- i)) else str_nat (nat i))"

text \<open>
  \<open>json.encoder.py_encode_basestring_ascii\<close>: the backslash and the double quote are
  escaped with a backslash, backspace, form feed, newline, carriage return and tab have
  their letter, every other character outside the range from space to tilde becomes
  \<open>\u00XX\<close> with lower-case hexadecimal digits, and the whole is put in double quotes.
\<close>

definition escape_char :: "char \<Rightarrow> string" where
  "escape_char c =
     (let n = (of_char c :: nat) in
      if n = 0x5C then [CHR 0x5C, CHR 0x5C]
      else if n = 0x22 then [CHR 0x5C, CHR 0x22]
      else if n = 0x08 then [CHR 0x5C, CHR ''b'']
      else if n = 0x0C then [CHR 0x5C, CHR ''f'']
      else if n = 0x0A then [CHR 0x5C, CHR ''n'']
      else if n = 0x0D then [CHR 0x5C, CHR ''r'']
      else if n = 0x09 then [CHR 0x5C, CHR ''t'']
      else if 0x20 \<le> n \<and> n \<le> 0x7E then [c]
      else [CHR 0x5C, CHR ''u'', CHR ''0'', CHR ''0'', digit_char (n div 16), digit_char (n mod 16)])"

definition encode_basestring_ascii :: "string \<Rightarrow> string" where
  "encode_basestring_ascii s = [CHR 0x22] @ concat (map escape_char s) @ [CHR 0x22]"

fun dumps :: "json \<Rightarrow> string" where
  "dumps JNull = ''null''"
| "dumps (JBool b) = (if b then ''true'' else ''false'')"
| "dumps (JInt n) = str_int n"
| "dumps (JStr s) = encode_basestring_ascii s"
| "dumps (JArr xs) = ''['' @ join '', '' (map dumps xs) @ '']''"
| "dumps (JObj kvs) =
     ''{'' @ join '', '' (map (\<lambda>kv. encode_basestring_ascii (fst kv) @ '': '' @ dumps (snd kv)) kvs)
       @ ''}''"

subsection \<open>The clause builders\<close>

text \<open>
  \<open>_make_where(properties)\<close>: the pairs are gathered into a dict by the comprehension
  \<open>{k: v for (k, v) in properties}\<close>, the empty dict \<open>p\<close> is updated with it when the
  list is not empty, and \<open>p\<close> is serialised. The \<open>bbox\<close> argument is never read.
\<close>

definition dict_of_pairs :: "('k \<times> 'v) list \<Rightarrow> ('k, 'v) dict" where
  "dict_of_pairs kvs = dict_update [] kvs"

definition make_where :: "(string \<times> json) list \<Rightarrow> real list \<Rightarrow> string" where
  "make_where properties bbox =
     (let p = [];
          p = (if properties \<noteq> [] then dict_update p (dict_of_pairs properties) else p)
      in dumps (JObj p))"

text \<open>
  \<open>_make_orderby(sortby)\<close>: every item is a dict read at \<open>'property'\<close> and \<open>'order'\<close>;
  the order symbol is looked up in the table \<open>{'+': 'asc', '-': 'desc'}\<close>. A missing key
  in an item or an order symbol outside the table raises \<open>KeyError\<close>.
\<close>

definition order_table :: "(string, string) dict" where
  "order_table = [(''+'', ''asc''), (''-'', ''desc'')]"

definition orderby_token :: "(string, string) dict \<Rightarrow> py_error + string" where
  "orderby_token item =
     (case dict_get item ''property'' of
        None \<Rightarrow> Inl KeyError
      | Some p \<Rightarrow>
          (case dict_get item ''order'' of
             None \<Rightarrow> Inl KeyError
           | Some ord \<Rightarrow>
               (case dict_get order_table ord of
                  None \<Rightarrow> Inl KeyError
                | Some dir \<Rightarrow> Inr (p @ '' '' @ dir))))"

text \<open>A list comprehension whose body may raise: the first exception ends it.\<close>

fun map_result :: "('a \<Rightarrow> py_error + 'b) \<Rightarrow> 'a list \<Rightarrow> py_error + 'b list" where
  "map_result f [] = Inr []"
| "map_result f (x # xs) =
     (case f x of
        Inl e \<Rightarrow> Inl e
      | Inr y \<Rightarrow> (case map_result f xs of Inl e \<Rightarrow> Inl e | Inr ys \<Rightarrow> Inr (y # ys)))"

definition make_orderby :: "(string, string) dict list \<Rightarrow> py_error + string" where
  "make_orderby sortby =
     (case map_result orderby_token sortby of
        Inl e \<Rightarrow> Inl e
      | Inr ret \<Rightarrow> Inr (join '','' ret))"

subsection \<open>The provider, the remote endpoint and the GeoJSON results\<close>

text \<open>
  The attributes of a \<open>CKANServiceProvider\<close>. \<open>data\<close>, \<open>id_field\<close>, \<open>x_field\<close>,
  \<open>y_field\<close> and \<open>properties\<close> come from the provider definition through the parent
  class, \<open>resource_id\<close> from the constructor, \<open>fields_cache\<close> (the attribute
  \<open>fields\<close>) and \<open>numFeatures\<close> from
  \<open>get_fields\<close>; \<open>numFeatures\<close> is unset (\<open>None\<close>) until then. A Python \<open>set\<close> of
  field names is a list without repetitions: the order in which Python iterates a set
  is not fixed, the model takes one order, and nothing below depends on which.
\<close>

record provider =
  data :: string
  resource_id :: string
  id_field :: string
  x_field :: string
  y_field :: string
  properties :: "string list"
  fields_cache :: "(string, (string, string) dict) dict"
  numFeatures :: "int option"

definition set_union :: "string list \<Rightarrow> string list \<Rightarrow> string list" where
  "set_union xs ys = remdups (xs @ ys)"

text \<open>The request parameters of one call; a key that was not set is \<open>None\<close>.\<close>

record params =
  p_offset :: "int option"
  p_limit :: int
  p_resource_id :: string
  p_fields :: "string option"
  p_filters :: "string option"
  p_include_total :: "string option"
  p_sort :: "string option"

text \<open>
  A response: the status code and the body, \<open>None\<close> when it is not JSON. The parsed body
  is the object under \<open>'result'\<close>: the field descriptors, the total (left out by the
  remote when it was asked not to count), the limit the remote reports and the rows.
\<close>

type_synonym 'v row = "(string, 'v) dict"

record 'v result =
  r_fields :: "(string, string) dict list"
  r_total :: "int option"
  r_limit :: int
  r_records :: "'v row list"

record 'v response =
  status_code :: nat
  json_body :: "'v result option"

text \<open>\<open>requests.codes.bad\<close> is the status 400.\<close>

definition codes_bad :: nat where
  "codes_bad = 400"

record 'c geometry =
  g_type :: string
  coordinates :: "'c list"

record ('v, 'c) feature =
  f_type :: string
  f_id :: 'v
  f_geometry :: "'c geometry option"
  f_properties :: "'v row"

record ('v, 'c) feature_collection =
  fc_type :: string
  features :: "('v, 'c) feature list"
  numberMatched :: "int option"
  numberReturned :: "int option"

subsection \<open>\<open>make_feature\<close>\<close>

text \<open>
  The row \<open>f\<close> loses its id field, and its two coordinate fields when the geometry is
  built; what is left of it becomes the properties. The builtin \<open>float\<close> is the parameter
  \<open>flt\<close>: it maps a row value to a coordinate or raises.
\<close>

definition make_feature ::
  "('v \<Rightarrow> py_error + 'c) \<Rightarrow> provider \<Rightarrow> 'v row \<Rightarrow> bool \<Rightarrow> py_error + ('v, 'c) feature" where
  "make_feature flt st f skip =
     (case pop f (id_field st) of
        Inl e \<Rightarrow> Inl e
      | Inr (i, f1) \<Rightarrow>
          if \<not> skip then
            (case pop f1 (x_field st) of
               Inl e \<Rightarrow> Inl e
             | Inr (xv, f2) \<Rightarrow>
                 (case flt xv of
                    Inl e \<Rightarrow> Inl e
                  | Inr x \<Rightarrow>
                      (case pop f2 (y_field st) of
                         Inl e \<Rightarrow> Inl e
                       | Inr (yv, f3) \<Rightarrow>
                           (case flt yv of
                              Inl e \<Rightarrow> Inl e
                            | Inr y \<Rightarrow>
                                Inr \<lparr>f_type = ''Feature'', f_id = i,
                                     f_geometry = Some \<lparr>g_type = ''Point'', coordinates = [x, y]\<rparr>,
                                     f_properties = f3\<rparr>))))
          else
            Inr \<lparr>f_type = ''Feature'', f_id = i, f_geometry = None, f_properties = f1\<rparr>)"

definition make_features ::
  "('v \<Rightarrow> py_error + 'c) \<Rightarrow> provider \<Rightarrow> bool \<Rightarrow> 'v row list \<Rightarrow> py_error + ('v, 'c) feature list" where
  "make_features flt st skip rows = map_result (\<lambda>f. make_feature flt st f skip) rows"

subsection \<open>\<open>_load\<close>\<close>

text \<open>
  The request parameters \<open>_load\<close> builds before its first call. \<open>props\<close> is the
  argument \<open>properties\<close> of \<open>_load\<close> (the attribute of the same name is
  \<open>properties st\<close>).
\<close>

definition load_params ::
  "provider \<Rightarrow> int \<Rightarrow> int \<Rightarrow> string \<Rightarrow> json option \<Rightarrow> real list \<Rightarrow> (string \<times> json) list
     \<Rightarrow> (string, string) dict list \<Rightarrow> string list \<Rightarrow> py_error + params" where
  "load_params st offset limit resulttype identifier bbox props sortby select_properties =
     (let params = \<lparr>p_offset = Some offset, p_limit = limit, p_resource_id = resource_id st,
                     p_fields = None, p_filters = None, p_include_total = None, p_sort = None\<rparr>;
          params =
            (if properties st \<noteq> [] \<or> select_properties \<noteq> []
             then params\<lparr>p_fields := Some (join '','' (set_union (properties st) select_properties))\<rparr>
             else params)
      in case (case identifier of None \<Rightarrow> None | Some i \<Rightarrow> if truthy i then Some i else None) of
           Some i \<Rightarrow>
             Inr (params\<lparr>p_filters := Some (make_where [(id_field st, i)] [])\<rparr>)
         | None \<Rightarrow>
             (let params =
                    (if props \<noteq> [] \<or> bbox \<noteq> []
                     then params\<lparr>p_filters := Some (make_where props [])\<rparr>
                     else params);
                  params =
                    (if resulttype = ''hits'' then params\<lparr>p_include_total := Some ''true''\<rparr>
                     else params)
              in if sortby \<noteq> []
                 then (case make_orderby sortby of
                         Inl e \<Rightarrow> Inl e
                       | Inr s \<Rightarrow> Inr (params\<lparr>p_sort := Some s\<rparr>))
                 else Inr params))"

text \<open>
  One call of the remote, as both call sites of \<open>_load\<close> write it: status 400 raises
  \<open>ProviderConnectionError\<close>, a body that is not JSON makes \<open>r.json()\<close> raise. The
  remote \<open>http\<close> answers the \<open>n\<close>-th call of the session (counted from 0) and its
  parameters.
\<close>

definition http_get :: "(nat \<Rightarrow> params \<Rightarrow> 'v response) \<Rightarrow> nat \<Rightarrow> params \<Rightarrow> py_error + 'v result" where
  "http_get http n ps =
     (let r = http n ps
      in if status_code r = codes_bad then Inl ProviderConnectionError
         else (case json_body r of None \<Rightarrow> Inl JSONDecodeError | Some resp \<Rightarrow> Inr resp))"

text \<open>
  The loop \<open>while len(v) < hits_\<close>. \<open>sent\<close> is the list of the requests issued so far in
  the session, returned with the result.
\<close>

function fetch_loop ::
  "('v \<Rightarrow> py_error + 'c) \<Rightarrow> (nat \<Rightarrow> params \<Rightarrow> 'v response) \<Rightarrow> provider \<Rightarrow> bool \<Rightarrow> int \<Rightarrow> int
     \<Rightarrow> params \<Rightarrow> params list \<Rightarrow> ('v, 'c) feature list
     \<Rightarrow> params list \<times> (py_error + ('v, 'c) feature list)" where
  "fetch_loop flt http st skip step hits ps sent v =
     (if int (length v) < hits then
        (case p_offset ps of
           None \<Rightarrow> (sent, Inl KeyError)
         | Some off \<Rightarrow>
             (case http_get http (length sent) (ps\<lparr>p_offset := Some (off + step)\<rparr>) of
                Inl e \<Rightarrow> (sent @ [ps\<lparr>p_offset := Some (off + step)\<rparr>], Inl e)
              | Inr resp \<Rightarrow>
                  (case make_features flt st skip (r_records resp) of
                     Inl e \<Rightarrow> (sent @ [ps\<lparr>p_offset := Some (off + step)\<rparr>], Inl e)
                   | Inr fs \<Rightarrow>
                       if length fs = 0 then (sent @ [ps\<lparr>p_offset := Some (off + step)\<rparr>], Inr v)
                       else fetch_loop flt http st skip step hits (ps\<lparr>p_offset := Some (off + step)\<rparr>)
                              (sent @ [ps\<lparr>p_offset := Some (off + step)\<rparr>]) (v @ fs))))
      else (sent, Inr v))"
  by pat_completeness auto
termination
  by (relation "measure (\<lambda>(flt, http, st, skip, step, hits, ps, sent, v). nat (hits - int (length v)))")
    auto

definition load ::
  "('v \<Rightarrow> py_error + 'c) \<Rightarrow> (nat \<Rightarrow> params \<Rightarrow> 'v response) \<Rightarrow> provider \<Rightarrow> int \<Rightarrow> int \<Rightarrow> string
     \<Rightarrow> json option \<Rightarrow> real list \<Rightarrow> string option \<Rightarrow> (string \<times> json) list
     \<Rightarrow> (string, string) dict list \<Rightarrow> string list \<Rightarrow> bool \<Rightarrow> string option
     \<Rightarrow> params list \<times> (py_error + ('v, 'c) feature_collection)" where
  "load flt http st offset limit resulttype identifier bbox datetime props sortby
        select_properties skip_geometry q =
     (let fc = \<lparr>fc_type = ''FeatureCollection'', features = [],
                 numberMatched = None, numberReturned = None\<rparr>
      in case load_params st offset limit resulttype identifier bbox props sortby select_properties of
           Inl e \<Rightarrow> ([], Inl e)
         | Inr ps \<Rightarrow>
             (case http_get http 0 ps of
                Inl e \<Rightarrow> ([ps], Inl e)
              | Inr resp \<Rightarrow>
                  (let limit = r_limit resp
                   in if resulttype = ''hits'' then
                        (case r_total resp of
                           None \<Rightarrow> ([ps], Inl KeyError)
                         | Some t \<Rightarrow> ([ps], Inr (fc\<lparr>numberMatched := Some t\<rparr>)))
                      else
                        (case make_features flt st skip_geometry (r_records resp) of
                           Inl e \<Rightarrow> ([ps], Inl e)
                         | Inr v \<Rightarrow>
                             (let step = int (length v)
                              in case numFeatures st of
                                   None \<Rightarrow> ([ps], Inl AttributeError)
                                 | Some nf \<Rightarrow>
                                     (let hits = min limit nf
                                      in case fetch_loop flt http st skip_geometry step hits ps [ps] v of
                                           (sent, Inl e) \<Rightarrow> (sent, Inl e)
                                         | (sent, Inr v') \<Rightarrow>
                                             (sent, Inr (fc\<lparr>features := v',
                                                numberReturned := Some (int (length v'))\<rparr>))))))))"

subsection \<open>\<open>query\<close> and \<open>get\<close>\<close>

definition query ::
  "('v \<Rightarrow> py_error + 'c) \<Rightarrow> (nat \<Rightarrow> params \<Rightarrow> 'v response) \<Rightarrow> provider \<Rightarrow> int \<Rightarrow> int \<Rightarrow> string
     \<Rightarrow> real list \<Rightarrow> string option \<Rightarrow> (string \<times> json) list \<Rightarrow> (string, string) dict list
     \<Rightarrow> string list \<Rightarrow> bool \<Rightarrow> string option
     \<Rightarrow> params list \<times> (py_error + ('v, 'c) feature_collection)" where
  "query flt http st offset limit resulttype bbox datetime props sortby select_properties
         skip_geometry q =
     load flt http st offset limit resulttype None bbox datetime props sortby select_properties
       skip_geometry None"



subsection \<open>\<open>get_fields\<close> and the constructor\<close>

text \<open>
  \<open>get_fields\<close> returns the provider as it leaves it together with its result or the
  exception. The assignments happen in the order of the source: \<open>properties\<close> is
  replaced before the request is sent, \<open>fields\<close> is stored before the total is read.
  The status code is not looked at here; a body that is not JSON raises
  \<open>ProviderQueryError\<close>.
\<close>

definition get_fields ::
  "(params \<Rightarrow> 'v response) \<Rightarrow> provider
     \<Rightarrow> provider \<times> (py_error + (string, (string, string) dict) dict)" where
  "get_fields http st =
     (if fields_cache st = [] then
        (let params = \<lparr>p_offset = None, p_limit = 1, p_resource_id = resource_id st,
                        p_fields = None, p_filters = None, p_include_total = Some ''true'',
                        p_sort = None\<rparr>;
             st1 = (if properties st \<noteq> []
                    then st\<lparr>properties :=
                             set_union (properties st) [id_field st, x_field st, y_field st]\<rparr>
                    else st);
             params = (if properties st \<noteq> []
                       then params\<lparr>p_fields := Some (join '','' (properties st1))\<rparr>
                       else params)
         in case json_body (http params) of
              None \<Rightarrow> (st1, Inl ProviderQueryError)
            | Some resp \<Rightarrow>
                (case map_result (\<lambda>d. pop d ''id'') (r_fields resp) of
                   Inl e \<Rightarrow> (st1, Inl e)
                 | Inr kvs \<Rightarrow>
                     (let st2 = st1\<lparr>fields_cache := dict_of_pairs kvs\<rparr>
                      in case r_total resp of
                           None \<Rightarrow> (st2, Inl KeyError)
                         | Some t \<Rightarrow> (st2\<lparr>numFeatures := Some t\<rparr>, Inr (fields_cache st2)))))
      else (st, Inr (fields_cache st)))"

text \<open>
  Modelled from the spec: the parent constructor \<open>BaseProvider.__init__\<close> of
  \<open>pygeoapi.provider.base\<close>, which is not among the sources. It takes from the provider
  definition the endpoint, the id field, the two coordinate fields and the optional
  property projection, and starts with an empty field cache. The constructor of the
  CKAN provider then stores the resource id and calls \<open>get_fields\<close>; an exception there
  leaves no provider.
\<close>

record provider_def =
  pd_data :: string
  pd_resource_id :: string
  pd_id_field :: string
  pd_x_field :: string
  pd_y_field :: string
  pd_properties :: "string list"

definition init :: "(params \<Rightarrow> 'v response) \<Rightarrow> provider_def \<Rightarrow> py_error + provider" where
  "init http pd =
     (let st = \<lparr>data = pd_data pd, resource_id = pd_resource_id pd, id_field = pd_id_field pd,
                 x_field = pd_x_field pd, y_field = pd_y_field pd, properties = pd_properties pd,
                 fields_cache = [], numFeatures = None\<rparr>
      in case get_fields http st of
           (st', Inl e) \<Rightarrow> Inl e
         | (st', Inr fs) \<Rightarrow> Inr st')"

subsection \<open>Remote endpoints on which the model is run\<close>

text \<open>
  Remotes for the examples, all answering with status 200. \<open>exact_remote\<close> pages over
  a fixed list of rows as a datastore does: it answers with the rows from the requested
  offset on, at most the requested limit of them, and reports that limit.
  \<open>capped_remote\<close> does the same but never sends more than \<open>cap\<close> rows in one
  response. \<open>fixed_remote\<close> reports one fixed limit and sends a fixed number of rows
  for every call, whatever limit is requested. \<open>filtering_remote\<close> answers by the
  \<open>filters\<close> of the request: it pages as \<open>exact_remote\<close> over the rows whose value
  under the id field encodes to the filter sent, and over all rows when no filter is sent.
\<close>

definition page :: "'v row list \<Rightarrow> nat \<Rightarrow> params \<Rightarrow> 'v row list" where
  "page rows n ps =
     take n (drop (nat (case p_offset ps of None \<Rightarrow> 0 | Some off \<Rightarrow> off)) rows)"

definition exact_remote :: "'v row list \<Rightarrow> nat \<Rightarrow> params \<Rightarrow> 'v response" where
  "exact_remote rows n ps =
     \<lparr>status_code = 200,
      json_body = Some \<lparr>r_fields = [], r_total = Some (int (length rows)), r_limit = p_limit ps,
                         r_records = page rows (nat (p_limit ps)) ps\<rparr>\<rparr>"

definition capped_remote :: "nat \<Rightarrow> 'v row list \<Rightarrow> nat \<Rightarrow> params \<Rightarrow> 'v response" where
  "capped_remote cap rows n ps =
     \<lparr>status_code = 200,
      json_body = Some \<lparr>r_fields = [], r_total = Some (int (length rows)), r_limit = p_limit ps,
                         r_records = page rows (min cap (nat (p_limit ps))) ps\<rparr>\<rparr>"



text \<open>
  A stand-in for the builtin \<open>float\<close> in the examples, on rows of \<open>json\<close> values with
  integer coordinates: an integer converts to itself, a string is refused with
  \<open>ValueError\<close> and anything else with \<open>TypeError\<close>.
\<close>

fun int_float :: "json \<Rightarrow> py_error + int" where
  "int_float (JInt n) = Inr n"
| "int_float (JStr s) = Inl ValueError"
| "int_float v = Inl TypeError"

text \<open>
  The provider of the examples: it is configured with the projection \<open>name\<close>, and the
  discovery response lists four fields and ten rows.
\<close>

definition example_def :: provider_def where
  "example_def =
     \<lparr>pd_data = ''https://example.org/api/3/action/datastore_search'', pd_resource_id = ''res'',
      pd_id_field = ''id'', pd_x_field = ''x'', pd_y_field = ''y'', pd_properties = [''name'']\<rparr>"

definition example_discovery :: "params \<Rightarrow> json response" where
  "example_discovery ps =
     \<lparr>status_code = 200,
      json_body = Some \<lparr>r_fields = [[(''id'', ''id''), (''type'', ''int4'')],
                                     [(''id'', ''x''), (''type'', ''numeric'')],
                                     [(''id'', ''y''), (''type'', ''numeric'')],
                                     [(''type'', ''text''), (''id'', ''name'')]],
                         r_total = Some 10, r_limit = 1, r_records = []\<rparr>\<rparr>"

definition example_provider :: provider where
  "example_provider =
     \<lparr>data = ''https://example.org/api/3/action/datastore_search'', resource_id = ''res'',
      id_field = ''id'', x_field = ''x'', y_field = ''y'',
      properties = [''name'', ''id'', ''x'', ''y''],
      fields_cache = [(''id'', [(''type'', ''int4'')]), (''x'', [(''type'', ''numeric'')]),
                      (''y'', [(''type'', ''numeric'')]), (''name'', [(''type'', ''text'')])],
      numFeatures = Some 10\<rparr>"

definition example_row :: "int \<Rightarrow> json row" where
  "example_row i = [(''id'', JInt i), (''x'', JInt (2 * i)), (''y'', JInt (3 * i)), (''name'', JStr ''foo'')]"

definition example_rows :: "json row list" where
  "example_rows = map example_row [1, 2, 3, 4, 5, 6, 7, 8, 9, 10]"

subsection \<open>Reference formulations\<close>

text \<open>
  The filter map as the specification words it: the pairs are inserted in order into an
  empty map, a repeated field taking the later value.
\<close>

definition spec_filter_map :: "(string \<times> json) list \<Rightarrow> (string, json) dict" where
  "spec_filter_map kvs = foldl (\<lambda>d kv. dict_set d (fst kv) (snd kv)) [] kvs"

text \<open>
  The order clause as the specification words it: one token \<open><property> asc\<close> or
  \<open><property> desc\<close> for each (property, direction) pair, joined by commas in the order
  of the input. \<open>sort_item_of item pd\<close> says that the dict \<open>item\<close> carries the pair
  \<open>pd\<close> under its keys \<open>'property'\<close> and \<open>'order'\<close>.
\<close>

definition spec_orderby :: "(string \<times> string) list \<Rightarrow> string" where
  "spec_orderby pds =
     join '','' (map (\<lambda>pd. fst pd @ '' '' @ (if snd pd = ''+'' then ''asc'' else ''desc'')) pds)"

definition sort_item_of :: "(string, string) dict \<Rightarrow> string \<times> string \<Rightarrow> bool" where
  "sort_item_of item pd \<longleftrightarrow>
     dict_get item ''property'' = Some (fst pd) \<and> dict_get item ''order'' = Some (snd pd)"

text \<open>The requests and the features of the examples.\<close>

definition example_request :: "int \<Rightarrow> int \<Rightarrow> params" where
  "example_request off lmt =
     \<lparr>p_offset = Some off, p_limit = lmt, p_resource_id = ''res'',
      p_fields = Some ''name,id,x,y'', p_filters = None, p_include_total = None, p_sort = None\<rparr>"

definition example_feature :: "int \<Rightarrow> (json, int) feature" where
  "example_feature i =
     \<lparr>f_type = ''Feature'', f_id = JInt i,
      f_geometry = Some \<lparr>g_type = ''Point'', coordinates = [2 * i, 3 * i]\<rparr>,
      f_properties = [(''name'', JStr ''foo'')]\<rparr>"

section \<open>Properties\<close>

subsection \<open>Dicts\<close>

lemma dict_get_dict_set: "dict_get (dict_set d k v) k' = (if k' = k then Some v else dict_get d k')"
  by (induction d) auto

lemma keys_dict_set: "keys (dict_set d k v) = (if k \<in> set (keys d) then keys d else keys d @ [k])"
  by (induction d) (force simp: keys_def)+

lemma dict_set_fresh: "k \<notin> set (keys d) \<Longrightarrow> dict_set d k v = d @ [(k, v)]"
  by (induction d) (auto simp: keys_def)

lemma distinct_keys_dict_set: "distinct (keys d) \<Longrightarrow> distinct (keys (dict_set d k v))"
  by (simp add: keys_dict_set)

lemma distinct_keys_dict_update: "distinct (keys d) \<Longrightarrow> distinct (keys (dict_update d kvs))"
  by (induction d kvs rule: dict_update.induct) (simp_all add: distinct_keys_dict_set)

lemma dict_get_dict_update:
  "dict_get (dict_update d kvs) k
   = (case map_of (rev kvs) k of None \<Rightarrow> dict_get d k | Some v \<Rightarrow> Some v)"
  by (induction d kvs rule: dict_update.induct) (auto simp: dict_get_dict_set split: option.splits)

lemma dict_update_append_distinct: "distinct (keys (d @ e)) \<Longrightarrow> dict_update d e = d @ e"
proof (induction e arbitrary: d)
  case Nil
  then show ?case by simp
next
  case (Cons kv e)
  obtain k v where kv: "kv = (k, v)" by (cases kv)
  from Cons.prems kv have fresh: "k \<notin> set (keys d)" by (auto simp: keys_def)
  from Cons.prems kv have "distinct (keys ((d @ [(k, v)]) @ e))" by (simp add: keys_def)
  then have "dict_update (d @ [(k, v)]) e = (d @ [(k, v)]) @ e" by (rule Cons.IH)
  with fresh kv show ?case by (simp add: dict_set_fresh)
qed

lemma dict_update_empty_distinct: "distinct (keys e) \<Longrightarrow> dict_update [] e = e"
  using dict_update_append_distinct [of "[]" e] by simp

lemma dict_update_foldl:
  "dict_update d kvs = foldl (\<lambda>d kv. dict_set d (fst kv) (snd kv)) d kvs"
  by (induction d kvs rule: dict_update.induct) simp_all

subsection \<open>The equality filter\<close>

lemma make_where_dumps: "make_where props bbox = dumps (JObj (spec_filter_map props))"
proof (cases "props = []")
  case True
  then show ?thesis by (simp add: make_where_def spec_filter_map_def)
next
  case False
  have "distinct (keys (dict_of_pairs props))"
    unfolding dict_of_pairs_def by (rule distinct_keys_dict_update) (simp add: keys_def)
  then have "dict_update [] (dict_of_pairs props) = dict_of_pairs props"
    by (rule dict_update_empty_distinct)
  with False show ?thesis
    by (simp add: make_where_def spec_filter_map_def dict_of_pairs_def dict_update_foldl)
qed

text \<open>
  Claim C7. For every ordered list of (field, value) pairs, \<open>_make_where\<close> returns the
  JSON encoding of the map obtained by inserting the pairs in order: a lookup in that map
  gives the last value paired with the field, and no field occurs twice in it. The empty
  list gives exactly \<open>{}\<close>, and the pairs (a, 1), (b, 2) give \<open>{"a": 1, "b": 2}\<close>.
\<close>

theorem make_where_encodes_last_wins:
  "make_where props bbox = dumps (JObj (spec_filter_map props))
   \<and> dict_get (spec_filter_map props) = map_of (rev props)
   \<and> distinct (keys (spec_filter_map props))
   \<and> make_where [] bbox = ''{}''
   \<and> make_where [(''a'', JInt 1), (''b'', JInt 2)] bbox
       = [CHR ''{'', CHR 0x22, CHR ''a'', CHR 0x22, CHR '':'', CHR '' '', CHR ''1'', CHR '','', CHR '' '',
          CHR 0x22, CHR ''b'', CHR 0x22, CHR '':'', CHR '' '', CHR ''2'', CHR ''}'']"
proof -
  have sfm: "spec_filter_map props = dict_update [] props"
    by (simp add: spec_filter_map_def dict_update_foldl)
  have a: "dict_get (spec_filter_map props) = map_of (rev props)"
    by (rule ext) (simp add: sfm dict_get_dict_update split: option.splits)
  have b: "distinct (keys (spec_filter_map props))"
    unfolding sfm by (rule distinct_keys_dict_update) (simp add: keys_def)
  have c: "make_where [] bbox = ''{}''"
    by (simp add: make_where_def)
  have d: "make_where [(''a'', JInt 1), (''b'', JInt 2)] bbox
       = [CHR ''{'', CHR 0x22, CHR ''a'', CHR 0x22, CHR '':'', CHR '' '', CHR ''1'', CHR '','', CHR '' '',
          CHR 0x22, CHR ''b'', CHR 0x22, CHR '':'', CHR '' '', CHR ''2'', CHR ''}'']"
    by (simp add: make_where_def dict_of_pairs_def encode_basestring_ascii_def escape_char_def
        str_int_def digit_char_def)
  from make_where_dumps a b c d show ?thesis by blast
qed

subsection \<open>The order clause\<close>

lemma orderby_token_ok:
  assumes "sort_item_of item pd" and "snd pd = ''+'' \<or> snd pd = ''-''"
  shows "orderby_token item = Inr (fst pd @ '' '' @ (if snd pd = ''+'' then ''asc'' else ''desc''))"
  using assms by (auto simp: orderby_token_def sort_item_of_def order_table_def)

lemma map_result_orderby:
  assumes "list_all2 sort_item_of sortby pds"
    and "\<forall>pd \<in> set pds. snd pd = ''+'' \<or> snd pd = ''-''"
  shows "map_result orderby_token sortby
         = Inr (map (\<lambda>pd. fst pd @ '' '' @ (if snd pd = ''+'' then ''asc'' else ''desc'')) pds)"
  using assms by (induction rule: list_all2_induct) (simp_all add: orderby_token_ok)

text \<open>
  Claim C8. For every list of sort items carrying (property, direction) pairs whose
  directions are \<open>+\<close> or \<open>-\<close>, \<open>_make_orderby\<close> returns the comma-joined tokens
  \<open><property> asc\<close> and \<open><property> desc\<close> in the order of the input. The witness is the
  example of the specification: x ascending, y descending gives \<open>x asc,y desc\<close>.
\<close>

theorem make_orderby_tokens:
  assumes "list_all2 sort_item_of sortby pds"
    and "\<forall>pd \<in> set pds. snd pd = ''+'' \<or> snd pd = ''-''"
  shows "make_orderby sortby = Inr (spec_orderby pds)"
  using map_result_orderby [OF assms] by (simp add: make_orderby_def spec_orderby_def)

theorem make_orderby_tokens_witness:
  "list_all2 sort_item_of
     [[(''property'', ''x''), (''order'', ''+'')], [(''order'', ''-''), (''property'', ''y'')]]
     [(''x'', ''+''), (''y'', ''-'')]
   \<and> list_all (\<lambda>pd. snd pd = ''+'' \<or> snd pd = ''-'') [(''x'', ''+''), (''y'', ''-'')]
   \<and> make_orderby [[(''property'', ''x''), (''order'', ''+'')], [(''order'', ''-''), (''property'', ''y'')]]
       = Inr ''x asc,y desc''"
proof -
  have h1: "list_all2 sort_item_of
     [[(''property'', ''x''), (''order'', ''+'')], [(''order'', ''-''), (''property'', ''y'')]]
     [(''x'', ''+''), (''y'', ''-'')]"
    by (simp add: sort_item_of_def)
  have h2: "\<forall>pd \<in> set [(''x'', ''+''), (''y'', ''-'')]. snd pd = ''+'' \<or> snd pd = (''-'' :: string)"
    by simp
  from make_orderby_tokens [OF h1 h2] h1 h2 show ?thesis
    by (simp add: spec_orderby_def)
qed

subsection \<open>The row translator\<close>

lemma keys_dict_del: "set (keys (dict_del d k)) = set (keys d) - {k}"
  by (induction d k rule: dict_del.induct) (auto simp: keys_def)

lemma pop_Inr_iff: "pop d k = Inr (v, d') \<longleftrightarrow> dict_get d k = Some v \<and> d' = dict_del d k"
  by (auto simp: pop_def split: option.splits)

text \<open>
  Claim C2, as the code has it. On every row for which \<open>make_feature\<close> returns a
  Feature, the Feature has the type \<open>Feature\<close> and the row's value under the id field as
  its id, and its properties never hold the id field. When \<open>skip\<close> is false the geometry
  is the Point of the two converted coordinates and the properties hold neither
  coordinate field: they are the row without the three fields. When \<open>skip\<close> is true the
  geometry is null and only the id field is removed: the properties are the row without
  the id field, so the coordinate fields of the row stay in them. The witness translates
  one row with and without geometry; the theorem after it shows the same row with
  \<open>skip\<close> true, where both coordinate fields are among the properties.
\<close>

theorem make_feature_properties:
  assumes "make_feature flt st f skip = Inr feat"
  shows "f_type feat = ''Feature''
     \<and> dict_get f (id_field st) = Some (f_id feat)
     \<and> id_field st \<notin> set (keys (f_properties feat))
     \<and> (\<not> skip \<longrightarrow>
          x_field st \<notin> set (keys (f_properties feat))
          \<and> y_field st \<notin> set (keys (f_properties feat))
          \<and> f_properties feat = dict_del (dict_del (dict_del f (id_field st)) (x_field st)) (y_field st)
          \<and> (\<exists>xv yv x y.
                dict_get (dict_del f (id_field st)) (x_field st) = Some xv \<and> flt xv = Inr x
                \<and> dict_get (dict_del (dict_del f (id_field st)) (x_field st)) (y_field st) = Some yv
                \<and> flt yv = Inr y
                \<and> f_geometry feat = Some \<lparr>g_type = ''Point'', coordinates = [x, y]\<rparr>))
     \<and> (skip \<longrightarrow> f_geometry feat = None \<and> f_properties feat = dict_del f (id_field st))"
proof (cases skip)
  case True
  with assms show ?thesis
    by (auto simp: make_feature_def keys_dict_del pop_Inr_iff split: sum.splits)
next
  case False
  with assms show ?thesis
    by (auto simp: make_feature_def keys_dict_del pop_Inr_iff split: sum.splits)
qed

theorem make_feature_properties_witness:
  "make_feature int_float example_provider (example_row 5) False
     = Inr \<lparr>f_type = ''Feature'', f_id = JInt 5,
            f_geometry = Some \<lparr>g_type = ''Point'', coordinates = [10, 15]\<rparr>,
            f_properties = [(''name'', JStr ''foo'')]\<rparr>
   \<and> ''id'' \<notin> set (keys [(''name'', JStr ''foo'')])
   \<and> ''x'' \<notin> set (keys [(''name'', JStr ''foo'')])
   \<and> ''y'' \<notin> set (keys [(''name'', JStr ''foo'')])
   \<and> make_feature int_float example_provider (example_row 5) True
     = Inr \<lparr>f_type = ''Feature'', f_id = JInt 5, f_geometry = None,
            f_properties = [(''x'', JInt 10), (''y'', JInt 15), (''name'', JStr ''foo'')]\<rparr>
   \<and> ''id'' \<notin> set (keys [(''x'', JInt 10), (''y'', JInt 15), (''name'', JStr ''foo'')])
   \<and> [(''x'', JInt 10), (''y'', JInt 15), (''name'', JStr ''foo'')] = dict_del (example_row 5) ''id''"
proof -
  let ?with = "\<lparr>f_type = ''Feature'', f_id = JInt 5,
            f_geometry = Some \<lparr>g_type = ''Point'', coordinates = [10, 15]\<rparr>,
            f_properties = [(''name'', JStr ''foo'')]\<rparr> :: (json, int) feature"
  let ?without = "\<lparr>f_type = ''Feature'', f_id = JInt 5, f_geometry = None,
            f_properties = [(''x'', JInt 10), (''y'', JInt 15), (''name'', JStr ''foo'')]\<rparr>
            :: (json, int) feature"
  have h: "make_feature int_float example_provider (example_row 5) False = Inr ?with"
    by (simp add: make_feature_def example_provider_def example_row_def pop_def)
  have h': "make_feature int_float example_provider (example_row 5) True = Inr ?without"
    by (simp add: make_feature_def example_provider_def example_row_def pop_def)
  have ids: "id_field example_provider = ''id''" "x_field example_provider = ''x''"
    "y_field example_provider = ''y''"
    by (simp_all add: example_provider_def)
  from make_feature_properties [OF h] have a:
    "''id'' \<notin> set (keys (f_properties ?with)) \<and> ''x'' \<notin> set (keys (f_properties ?with))
     \<and> ''y'' \<notin> set (keys (f_properties ?with))"
    unfolding ids by blast
  from make_feature_properties [OF h'] have b:
    "''id'' \<notin> set (keys (f_properties ?without))
     \<and> f_geometry ?without = None
     \<and> f_properties ?without = dict_del (example_row 5) ''id''"
    unfolding ids by blast
  from a have a': "''id'' \<notin> set (keys [(''name'', JStr ''foo'')])
     \<and> ''x'' \<notin> set (keys [(''name'', JStr ''foo'')])
     \<and> ''y'' \<notin> set (keys [(''name'', JStr ''foo'')])"
    by simp
  from b have b': "''id'' \<notin> set (keys [(''x'', JInt 10), (''y'', JInt 15), (''name'', JStr ''foo'')])
     \<and> [(''x'', JInt 10), (''y'', JInt 15), (''name'', JStr ''foo'')] = dict_del (example_row 5) ''id''"
    by (simp add: example_row_def)
  from h h' a' b' show ?thesis by blast
qed

theorem make_feature_skip_keeps_coordinates:
  "make_feature int_float example_provider (example_row 5) True
     = Inr \<lparr>f_type = ''Feature'', f_id = JInt 5, f_geometry = None,
            f_properties = [(''x'', JInt 10), (''y'', JInt 15), (''name'', JStr ''foo'')]\<rparr>
   \<and> x_field example_provider \<in> set (keys [(''x'', JInt 10), (''y'', JInt 15), (''name'', JStr ''foo'')])
   \<and> y_field example_provider \<in> set (keys [(''x'', JInt 10), (''y'', JInt 15), (''name'', JStr ''foo'')])"
  by (simp add: make_feature_def example_provider_def example_row_def pop_def keys_def)

subsection \<open>The fetch loop\<close>

declare fetch_loop.simps [simp del]

lemma fetch_loop_done:
  "hits \<le> int (length v) \<Longrightarrow> fetch_loop flt http st skip step hits ps sent v = (sent, Inr v)"
  by (subst fetch_loop.simps) simp

lemma fetch_loop_empty_page:
  assumes "int (length v) < hits" and "p_offset ps = Some off"
    and "http_get http (length sent) (ps\<lparr>p_offset := Some (off + step)\<rparr>) = Inr resp"
    and "r_records resp = []"
  shows "fetch_loop flt http st skip step hits ps sent v
         = (sent @ [ps\<lparr>p_offset := Some (off + step)\<rparr>], Inr v)"
  using assms by (subst fetch_loop.simps) (simp add: make_features_def)

lemma fetch_loop_more:
  assumes "int (length v) < hits" and "p_offset ps = Some off"
    and "http_get http (length sent) (ps\<lparr>p_offset := Some (off + step)\<rparr>) = Inr resp"
    and "make_features flt st skip (r_records resp) = Inr fs"
    and "fs \<noteq> []"
  shows "fetch_loop flt http st skip step hits ps sent v
         = fetch_loop flt http st skip step hits (ps\<lparr>p_offset := Some (off + step)\<rparr>)
             (sent @ [ps\<lparr>p_offset := Some (off + step)\<rparr>]) (v @ fs)"
  using assms by (subst fetch_loop.simps) simp

lemma nonempty_length_int: "fs \<noteq> [] \<Longrightarrow> 1 \<le> int (length fs)"
  by (cases fs) simp_all

lemma loop_measure_step:
  "1 \<le> int (length fs) \<Longrightarrow> int (length v) < hits
   \<Longrightarrow> length (sent @ [p]) + nat (hits - int (length (v @ fs)))
       \<le> length sent + nat (hits - int (length v))"
  unfolding length_append of_nat_add by (simp only: list.size)

lemma fetch_loop_calls:
  "length (fst (fetch_loop flt http st skip step hits ps sent v))
   \<le> length sent + nat (hits - int (length v))"
proof (induction flt http st skip step hits ps sent v rule: fetch_loop.induct)
  case (1 flt http st skip step hits ps sent v)
  show ?case
  proof (cases "int (length v) < hits")
    case False
    then show ?thesis by (simp add: fetch_loop_done)
  next
    case True
    show ?thesis
    proof (cases "p_offset ps")
      case None
      with True show ?thesis by (subst fetch_loop.simps) simp
    next
      case (Some off)
      let ?ps = "ps\<lparr>p_offset := Some (off + step)\<rparr>"
      show ?thesis
      proof (cases "http_get http (length sent) ?ps")
        case (Inl e)
        with True Some show ?thesis by (subst fetch_loop.simps) simp
      next
        case (Inr resp)
        show ?thesis
        proof (cases "make_features flt st skip (r_records resp)")
          case (Inl e)
          with True Some Inr show ?thesis by (subst fetch_loop.simps) simp
        next
          case fs: (Inr fs)
          show ?thesis
          proof (cases "length fs = 0")
            case True
            with \<open>int (length v) < hits\<close> Some Inr fs show ?thesis
              by (subst fetch_loop.simps) simp
          next
            case False
            from "1.IH" [OF \<open>int (length v) < hits\<close> Some Inr fs False]
            have "length (fst (fetch_loop flt http st skip step hits ?ps (sent @ [?ps]) (v @ fs)))
                  \<le> length (sent @ [?ps]) + nat (hits - int (length (v @ fs)))" .
            moreover from False have "fs \<noteq> []" by simp
            then have "1 \<le> int (length fs)" by (rule nonempty_length_int)
            with \<open>int (length v) < hits\<close>
            have "length (sent @ [?ps]) + nat (hits - int (length (v @ fs)))
                  \<le> length sent + nat (hits - int (length v))"
              by (simp only: loop_measure_step)
            ultimately show ?thesis
              using \<open>int (length v) < hits\<close> Some Inr fs False
              by (subst fetch_loop.simps) simp
          qed
        qed
      qed
    qed
  qed
qed


lemma fetch_loop_requests:
  "p \<in> set (fst (fetch_loop flt http st skip step hits ps sent v)) \<Longrightarrow>
   p \<in> set sent \<or>
   (p_limit p = p_limit ps \<and> p_resource_id p = p_resource_id ps \<and> p_fields p = p_fields ps
    \<and> p_filters p = p_filters ps \<and> p_include_total p = p_include_total ps \<and> p_sort p = p_sort ps)"
proof (induction flt http st skip step hits ps sent v rule: fetch_loop.induct)
  case (1 flt http st skip step hits ps sent v)
  from "1.prems" show ?case
    apply (subst (asm) fetch_loop.simps)
    apply (auto split: if_splits option.splits sum.splits dest!: "1.IH")
    done
qed



lemma load_params_basic:
  assumes "load_params st offset limit resulttype identifier bbox props sortby sel = Inr ps"
  shows "p_offset ps = Some offset" and "p_limit ps = limit"
    and "p_fields ps = (if properties st \<noteq> [] \<or> sel \<noteq> []
                        then Some (join '','' (set_union (properties st) sel)) else None)"
  using assms
  by (auto simp: load_params_def Let_def split: option.splits if_splits sum.splits)

lemma load_params_filters:
  assumes "load_params st offset limit resulttype None bbox props sortby sel = Inr ps"
  shows "p_filters ps = (if props \<noteq> [] \<or> bbox \<noteq> [] then Some (make_where props []) else None)"
  using assms
  by (auto simp: load_params_def Let_def split: option.splits if_splits sum.splits)

lemma load_requests:
  assumes "p \<in> set (fst (load flt http st offset limit resulttype identifier bbox dt props sortby sel skip q))"
  shows "\<exists>ps. load_params st offset limit resulttype identifier bbox props sortby sel = Inr ps
    \<and> p_limit p = p_limit ps \<and> p_resource_id p = p_resource_id ps \<and> p_fields p = p_fields ps
    \<and> p_filters p = p_filters ps \<and> p_include_total p = p_include_total ps \<and> p_sort p = p_sort ps"
  using assms
  apply (simp add: load_def Let_def split: sum.splits if_splits option.splits prod.splits)
  apply (auto dest!: fetch_loop_requests [where sent = "[x]" for x, simplified] arg_cong [where f = fst])
  done


lemma map_result_length: "map_result f xs = Inr ys \<Longrightarrow> length ys = length xs"
  by (induction xs arbitrary: ys) (auto split: sum.splits)

lemma make_features_length:
  "make_features flt st skip rows = Inr v \<Longrightarrow> length v = length rows"
  unfolding make_features_def by (rule map_result_length)

lemma load_results_loop:
  assumes "resulttype \<noteq> ''hits''"
    and "load_params st offset limit resulttype ident bbox props sortby sel = Inr ps_first"
    and "http_get http 0 ps_first = Inr resp_first"
    and "make_features flt st skip (r_records resp_first) = Inr v_first"
    and "numFeatures st = Some nf"
  shows "load flt http st offset limit resulttype ident bbox dt props sortby sel skip q
         = (case fetch_loop flt http st skip (int (length v_first)) (min (r_limit resp_first) nf) ps_first [ps_first] v_first of
              (sent, Inl e) \<Rightarrow> (sent, Inl e)
            | (sent, Inr v') \<Rightarrow>
                (sent, Inr \<lparr>fc_type = ''FeatureCollection'', features = v', numberMatched = None,
                            numberReturned = Some (int (length v'))\<rparr>))"
  using assms by (simp add: load_def)

text \<open>
  Claim C4. \<open>fetch_loop\<close> is a total function: the loop returns for every remote, and it
  issues at most \<open>hits - len(v)\<close> further requests, since every round that continues adds
  at least one feature. It issues no request once the number of features has reached
  \<open>hits\<close>. While \<open>hits\<close> is not reached, a response with no rows ends it at once with
  the features gathered so far. In \<open>_load\<close>, in results mode, the loop runs with
  \<open>hits\<close> the minimum of the limit reported by the first response and the cached total,
  so at most that many requests, less the size of the first page, follow the first.
\<close>

theorem fetch_loop_terminates:
  "length (fst (fetch_loop flt http st skip step hits ps sent v))
     \<le> length sent + nat (hits - int (length v))
   \<and> (hits \<le> int (length v) \<longrightarrow>
        fetch_loop flt http st skip step hits ps sent v = (sent, Inr v))
   \<and> (int (length v) < hits \<and> p_offset ps = Some off
        \<and> http_get http (length sent) (ps\<lparr>p_offset := Some (off + step)\<rparr>) = Inr resp
        \<and> r_records resp = [] \<longrightarrow>
        fetch_loop flt http st skip step hits ps sent v
          = (sent @ [ps\<lparr>p_offset := Some (off + step)\<rparr>], Inr v))
   \<and> (resulttype \<noteq> ''hits''
        \<and> load_params st offset limit resulttype ident bbox props sortby sel = Inr ps_first
        \<and> http_get http 0 ps_first = Inr resp_first
        \<and> make_features flt st skip (r_records resp_first) = Inr v_first
        \<and> numFeatures st = Some nf \<longrightarrow>
        fst (load flt http st offset limit resulttype ident bbox dt props sortby sel skip q)
          = fst (fetch_loop flt http st skip (int (length v_first)) (min (r_limit resp_first) nf) ps_first [ps_first] v_first)
        \<and> length (fst (load flt http st offset limit resulttype ident bbox dt props sortby sel
                          skip q))
            \<le> 1 + nat (min (r_limit resp_first) nf - int (length (r_records resp_first))))"
proof -
  have d: "resulttype \<noteq> ''hits''
        \<and> load_params st offset limit resulttype ident bbox props sortby sel = Inr ps_first
        \<and> http_get http 0 ps_first = Inr resp_first
        \<and> make_features flt st skip (r_records resp_first) = Inr v_first
        \<and> numFeatures st = Some nf \<longrightarrow>
        fst (load flt http st offset limit resulttype ident bbox dt props sortby sel skip q)
          = fst (fetch_loop flt http st skip (int (length v_first)) (min (r_limit resp_first) nf) ps_first [ps_first] v_first)
        \<and> length (fst (load flt http st offset limit resulttype ident bbox dt props sortby sel
                          skip q))
            \<le> 1 + nat (min (r_limit resp_first) nf - int (length (r_records resp_first)))"
  proof (intro impI, elim conjE)
    assume h: "resulttype \<noteq> ''hits''"
      "load_params st offset limit resulttype ident bbox props sortby sel = Inr ps_first"
      "http_get http 0 ps_first = Inr resp_first"
      "make_features flt st skip (r_records resp_first) = Inr v_first"
      "numFeatures st = Some nf"
    let ?loop = "fetch_loop flt http st skip (int (length v_first)) (min (r_limit resp_first) nf) ps_first [ps_first] v_first"
    have eq: "fst (load flt http st offset limit resulttype ident bbox dt props sortby sel skip q)
              = fst ?loop"
      unfolding load_results_loop [OF h] by (simp split: prod.splits sum.splits)
    have "length (fst ?loop) \<le> length [ps_first] + nat (min (r_limit resp_first) nf - int (length v_first))"
      by (rule fetch_loop_calls)
    with eq make_features_length [OF h(4)] show
      "fst (load flt http st offset limit resulttype ident bbox dt props sortby sel skip q)
          = fst ?loop
        \<and> length (fst (load flt http st offset limit resulttype ident bbox dt props sortby sel
                          skip q))
            \<le> 1 + nat (min (r_limit resp_first) nf - int (length (r_records resp_first)))"
      by simp
  qed
  show ?thesis
    using fetch_loop_calls [of flt http st skip step hits ps sent v]
      fetch_loop_done [of hits v flt http st skip step ps sent]
      fetch_loop_empty_page [of v hits ps off http sent step resp flt st skip] d
    by blast
qed


lemma example_make_feature:
  "make_feature int_float example_provider (example_row i) False = Inr (example_feature i)"
  by (simp add: make_feature_def example_provider_def example_row_def pop_def example_feature_def)

lemma example_load_params:
  "load_params example_provider off lmt ''results'' None [] [] [] [] = Inr (example_request off lmt)"
  by (simp add: load_params_def example_provider_def example_request_def set_union_def)

lemma example_page_8_5:
  "http_get (exact_remote example_rows) n (example_request 8 5)
   = Inr \<lparr>r_fields = [], r_total = Some 10, r_limit = 5,
          r_records = [example_row 9, example_row 10]\<rparr>"
  by (simp add: http_get_def exact_remote_def page_def example_rows_def example_request_def
      codes_bad_def)

lemma example_page_10_5:
  "http_get (exact_remote example_rows) n (example_request 10 5)
   = Inr \<lparr>r_fields = [], r_total = Some 10, r_limit = 5, r_records = []\<rparr>"
  by (simp add: http_get_def exact_remote_def page_def example_rows_def example_request_def
      codes_bad_def)

theorem fetch_loop_terminates_witness:
  "fst (load int_float (exact_remote example_rows) example_provider 8 5 ''results'' None [] None
          [] [] [] False None)
     = [example_request 8 5, example_request 10 5]
   \<and> fetch_loop int_float (exact_remote example_rows) example_provider False 2 5
        (example_request 8 5) [example_request 8 5] [example_feature 9, example_feature 10]
     = ([example_request 8 5, example_request 10 5], Inr [example_feature 9, example_feature 10])
   \<and> fetch_loop int_float (exact_remote example_rows) example_provider False 2 2
        (example_request 8 5) [example_request 8 5] [example_feature 9, example_feature 10]
     = ([example_request 8 5], Inr [example_feature 9, example_feature 10])"
proof -
  let ?http = "exact_remote example_rows :: nat \<Rightarrow> params \<Rightarrow> json response"
  let ?v = "[example_feature 9, example_feature 10]"
  let ?r0 = "\<lparr>r_fields = [], r_total = Some 10, r_limit = 5,
               r_records = [example_row 9, example_row 10]\<rparr> :: json result"
  let ?r1 = "\<lparr>r_fields = [], r_total = Some 10, r_limit = 5, r_records = []\<rparr> :: json result"
  have next_req: "(example_request 8 5)\<lparr>p_offset := Some (8 + 2)\<rparr> = example_request 10 5"
    by (simp add: example_request_def)
  have h1: "make_features int_float example_provider False (r_records ?r0) = Inr ?v"
    by (simp add: make_features_def example_make_feature)
  have h2: "http_get ?http (length [example_request 8 5])
              ((example_request 8 5)\<lparr>p_offset := Some (8 + 2)\<rparr>) = Inr ?r1"
    unfolding next_req by (rule example_page_10_5)
  have h3: "p_offset (example_request 8 5) = Some 8"
    by (simp add: example_request_def)
  have h4: "numFeatures example_provider = Some 10"
    by (simp add: example_provider_def)
  note early = fetch_loop_terminates [where flt = int_float and http = ?http
      and st = example_provider and skip = False and step = 2 and hits = 5
      and ps = "example_request 8 5" and sent = "[example_request 8 5]" and v = ?v
      and off = 8 and resp = ?r1 and resulttype = "''results''" and offset = 8 and limit = 5
      and ident = None and bbox = "[]" and props = "[]" and sortby = "[]" and sel = "[]"
      and ps_first = "example_request 8 5" and resp_first = ?r0 and v_first = ?v and nf = 10
      and dt = None and q = None]
  note reached = fetch_loop_terminates [where flt = int_float and http = ?http
      and st = example_provider and skip = False and step = 2 and hits = 2
      and ps = "example_request 8 5" and sent = "[example_request 8 5]" and v = ?v]
  have h5: "load_params example_provider 8 5 ''results'' None [] [] [] [] = Inr (example_request 8 5)"
    by (rule example_load_params)
  have h6: "http_get ?http 0 (example_request 8 5) = Inr ?r0"
    by (rule example_page_8_5)
  from early h2 h3 have a:
    "fetch_loop int_float ?http example_provider False 2 5 (example_request 8 5)
       [example_request 8 5] ?v
     = ([example_request 8 5] @ [(example_request 8 5)\<lparr>p_offset := Some (8 + 2)\<rparr>], Inr ?v)"
    by simp
  from early h1 h4 h5 h6 have b:
    "fst (load int_float ?http example_provider 8 5 ''results'' None [] None [] [] [] False None)
     = fst (fetch_loop int_float ?http example_provider False (int (length ?v)) (min (r_limit ?r0) 10)
              (example_request 8 5) [example_request 8 5] ?v)"
    by blast
  from reached have c:
    "fetch_loop int_float ?http example_provider False 2 2 (example_request 8 5)
       [example_request 8 5] ?v
     = ([example_request 8 5], Inr ?v)"
    by simp
  from a b c next_req show ?thesis by simp
qed

subsection \<open>The two result modes and the limit 0\<close>

lemma load_hits:
  assumes "load_params st offset limit ''hits'' ident bbox props sortby sel = Inr ps"
    and "http_get http 0 ps = Inr resp"
  shows "load flt http st offset limit ''hits'' ident bbox dt props sortby sel skip q
         = (case r_total resp of
              None \<Rightarrow> ([ps], Inl KeyError)
            | Some t \<Rightarrow>
                ([ps], Inr \<lparr>fc_type = ''FeatureCollection'', features = [], numberMatched = Some t,
                            numberReturned = None\<rparr>))"
  using assms by (simp add: load_def split: option.splits)

lemma load_counters:
  assumes "snd (load flt http st offset limit resulttype ident bbox dt props sortby sel skip q) = Inr fc"
  shows "if resulttype = ''hits''
         then features fc = [] \<and> numberReturned fc = None \<and> numberMatched fc \<noteq> None
         else numberMatched fc = None \<and> numberReturned fc = Some (int (length (features fc)))"
  using assms
  by (auto simp: load_def Let_def split: sum.splits option.splits prod.splits if_splits)

text \<open>
  Claim C5. A query in hits mode whose first call succeeds and reports a total returns,
  after that one request, the collection with the total as \<open>numberMatched\<close>, no
  feature and no \<open>numberReturned\<close>: the rows of the response are not looked at. A
  collection returned in hits mode has \<open>numberMatched\<close> and not \<open>numberReturned\<close>, one
  returned in results mode has \<open>numberReturned\<close>, the number of its features, and not
  \<open>numberMatched\<close>. In the witness the hits query runs on a remote whose only row has
  no id field and could not be translated.
\<close>

theorem hits_and_results_counters:
  "(load_params st offset limit ''hits'' None bbox props sortby sel = Inr ps
      \<and> http_get http 0 ps = Inr resp \<and> r_total resp = Some t \<longrightarrow>
      query flt http st offset limit ''hits'' bbox dt props sortby sel skip q
        = ([ps], Inr \<lparr>fc_type = ''FeatureCollection'', features = [], numberMatched = Some t,
                      numberReturned = None\<rparr>))
   \<and> (snd (query flt http st offset limit resulttype bbox dt props sortby sel skip q) = Inr fc \<longrightarrow>
        (if resulttype = ''hits''
         then features fc = [] \<and> numberReturned fc = None \<and> numberMatched fc \<noteq> None
         else numberMatched fc = None \<and> numberReturned fc = Some (int (length (features fc)))))"
  using load_hits [of st offset limit None bbox props sortby sel ps http resp flt dt skip None]
    load_counters [of flt http st offset limit resulttype None bbox dt props sortby sel skip None fc]
  by (simp add: query_def)


lemma example_load_8_5:
  "load int_float (exact_remote example_rows) example_provider 8 5 ''results'' None [] None
     [] [] [] False None
   = ([example_request 8 5, example_request 10 5],
      Inr \<lparr>fc_type = ''FeatureCollection'', features = [example_feature 9, example_feature 10],
            numberMatched = None, numberReturned = Some 2\<rparr>)"
proof -
  let ?http = "exact_remote example_rows :: nat \<Rightarrow> params \<Rightarrow> json response"
  let ?v = "[example_feature 9, example_feature 10]"
  let ?r = "\<lparr>r_fields = [], r_total = Some 10, r_limit = 5,
              r_records = [example_row 9, example_row 10]\<rparr> :: json result"
  have next_req: "(example_request 8 5)\<lparr>p_offset := Some (8 + int (length ?v))\<rparr> = example_request 10 5"
    by (simp add: example_request_def)
  have mf: "make_features int_float example_provider False (r_records ?r) = Inr ?v"
    by (simp add: make_features_def example_make_feature)
  have nf: "numFeatures example_provider = Some 10"
    by (simp add: example_provider_def)
  have "fetch_loop int_float ?http example_provider False (int (length ?v)) (min (r_limit ?r) 10)
          (example_request 8 5) [example_request 8 5] ?v
        = ([example_request 8 5] @ [(example_request 8 5)\<lparr>p_offset := Some (8 + int (length ?v))\<rparr>],
           Inr ?v)"
  proof (rule fetch_loop_empty_page)
    show "int (length ?v) < min (r_limit ?r) 10" by simp
    show "p_offset (example_request 8 5) = Some 8" by (simp add: example_request_def)
    show "http_get ?http (length [example_request 8 5])
            ((example_request 8 5)\<lparr>p_offset := Some (8 + int (length ?v))\<rparr>)
          = Inr \<lparr>r_fields = [], r_total = Some 10, r_limit = 5, r_records = []\<rparr>"
      unfolding next_req by (rule example_page_10_5)
    show "r_records \<lparr>r_fields = [], r_total = Some 10, r_limit = 5, r_records = ([] :: json row list)\<rparr> = []"
      by simp
  qed
  with load_results_loop [where resulttype = "''results''" and dt = None and q = None,
      OF _ example_load_params example_page_8_5 mf nf] next_req
  show ?thesis by simp
qed

theorem hits_and_results_counters_witness:
  "query int_float (exact_remote [[(''name'', JStr ''foo'')]]) example_provider 0 10 ''hits'' []
     None [] [] [] False None
   = ([(example_request 0 10)\<lparr>p_include_total := Some ''true''\<rparr>],
      Inr \<lparr>fc_type = ''FeatureCollection'', features = [], numberMatched = Some 1,
            numberReturned = None\<rparr>)
   \<and> snd (query int_float (exact_remote example_rows) example_provider 8 5 ''results'' []
            None [] [] [] False None)
     = Inr \<lparr>fc_type = ''FeatureCollection'', features = [example_feature 9, example_feature 10],
            numberMatched = None, numberReturned = Some 2\<rparr>
   \<and> numberReturned \<lparr>fc_type = ''FeatureCollection'',
         features = [example_feature 9, example_feature 10],
         numberMatched = None, numberReturned = Some 2\<rparr>
     = Some (int (length [example_feature 9, example_feature 10]))"
proof -
  let ?bad = "exact_remote [[(''name'', JStr ''foo'')]] :: nat \<Rightarrow> params \<Rightarrow> json response"
  let ?ps = "(example_request 0 10)\<lparr>p_include_total := Some ''true''\<rparr>"
  let ?r = "\<lparr>r_fields = [], r_total = Some 1, r_limit = 10,
              r_records = [[(''name'', JStr ''foo'')]]\<rparr> :: json result"
  let ?fc = "\<lparr>fc_type = ''FeatureCollection'', features = [example_feature 9, example_feature 10],
            numberMatched = None, numberReturned = Some 2\<rparr>"
  have h1: "load_params example_provider 0 10 ''hits'' None [] [] [] [] = Inr ?ps"
    by (simp add: load_params_def example_provider_def example_request_def set_union_def)
  have h2: "http_get ?bad 0 ?ps = Inr ?r"
    by (simp add: http_get_def exact_remote_def page_def example_request_def codes_bad_def)
  have h3: "r_total ?r = Some 1" by simp
  have h4: "snd (query int_float (exact_remote example_rows) example_provider 8 5 ''results'' []
            None [] [] [] False None) = Inr ?fc"
    by (simp add: query_def example_load_8_5)
  note hits = hits_and_results_counters [where st = example_provider and offset = 0 and limit = 10
      and bbox = "[]" and props = "[]" and sortby = "[]" and sel = "[]" and ps = ?ps
      and http = ?bad and resp = ?r and t = 1 and flt = int_float and dt = None and skip = False
      and q = None, THEN conjunct1]
  note results = hits_and_results_counters [where st = example_provider and offset = 8 and limit = 5
      and resulttype = "''results''" and bbox = "[]" and props = "[]" and sortby = "[]"
      and sel = "[]" and http = "exact_remote example_rows" and flt = int_float and dt = None
      and skip = False and q = None and fc = ?fc, THEN conjunct2]
  from hits h1 h2 h3 have a:
    "query int_float ?bad example_provider 0 10 ''hits'' [] None [] [] [] False None
     = ([?ps], Inr \<lparr>fc_type = ''FeatureCollection'', features = [], numberMatched = Some 1,
            numberReturned = None\<rparr>)"
    by blast
  from results h4 have b: "numberReturned ?fc = Some (int (length (features ?fc)))"
    by simp
  from a b h4 show ?thesis by simp
qed





subsection \<open>The request parameters\<close>

lemma query_filters:
  assumes "p \<in> set (fst (query flt http st offset limit resulttype bbox dt props sortby sel skip q))"
  shows "p_filters p = (if props \<noteq> [] \<or> bbox \<noteq> [] then Some (make_where props []) else None)"
proof -
  from assms obtain ps where
    "load_params st offset limit resulttype None bbox props sortby sel = Inr ps"
    and "p_filters p = p_filters ps"
    unfolding query_def by (blast dest: load_requests)
  then show ?thesis by (simp add: load_params_filters)
qed

lemma make_where_bbox: "make_where props bbox = make_where props bbox'"
  by (simp add: make_where_def)

text \<open>
  Claim C9. Every request of a query carries as \<open>filters\<close> either nothing or the
  encoding \<open>_make_where\<close> builds from the equality properties; \<open>_make_where\<close> does
  not read the bounding box; two queries that differ in the bounding box only (and in
  the answers of the remote) never carry two different \<open>filters\<close> values. The bounding
  box decides one thing: with no equality property, \<open>filters\<close> is attached (as the
  encoding of the empty map) exactly when the bounding box is not empty.
\<close>

theorem bbox_only_gates_filters:
  "(\<forall>p \<in> set (fst (query flt http st offset limit resulttype bbox dt props sortby sel skip q)).
      p_filters p = (if props \<noteq> [] \<or> bbox \<noteq> [] then Some (make_where props []) else None))
   \<and> make_where props bbox = make_where props []
   \<and> (\<forall>p \<in> set (fst (query flt http st offset limit resulttype bbox dt props sortby sel skip q)).
       \<forall>p' \<in> set (fst (query flt http' st offset limit resulttype bbox' dt props sortby sel skip q)).
       \<forall>s s'. p_filters p = Some s \<and> p_filters p' = Some s' \<longrightarrow> s = s')"
proof -
  have a: "\<forall>p \<in> set (fst (query flt http st offset limit resulttype bbox dt props sortby sel skip q)).
      p_filters p = (if props \<noteq> [] \<or> bbox \<noteq> [] then Some (make_where props []) else None)"
    by (blast intro: query_filters)
  have b: "\<forall>p \<in> set (fst (query flt http st offset limit resulttype bbox dt props sortby sel skip q)).
       \<forall>p' \<in> set (fst (query flt http' st offset limit resulttype bbox' dt props sortby sel skip q)).
       \<forall>s s'. p_filters p = Some s \<and> p_filters p' = Some s' \<longrightarrow> s = s'"
  proof (intro ballI allI impI)
    fix p p' s s'
    assume p: "p \<in> set (fst (query flt http st offset limit resulttype bbox dt props sortby sel skip q))"
      and p': "p' \<in> set (fst (query flt http' st offset limit resulttype bbox' dt props sortby sel skip q))"
      and s: "p_filters p = Some s \<and> p_filters p' = Some s'"
    from query_filters [OF p] s have "s = make_where props []" by (simp split: if_splits)
    moreover from query_filters [OF p'] s have "s' = make_where props []" by (simp split: if_splits)
    ultimately show "s = s'" by simp
  qed
  from a b make_where_bbox [of props bbox "[]"] show ?thesis by blast
qed


lemma example_page_0_2:
  "http_get (exact_remote example_rows) n (example_request 0 2\<lparr>p_filters := f\<rparr>)
   = Inr \<lparr>r_fields = [], r_total = Some 10, r_limit = 2,
          r_records = [example_row 1, example_row 2]\<rparr>"
  by (simp add: http_get_def exact_remote_def page_def example_rows_def example_request_def
      codes_bad_def)

lemma example_query_0_2:
  assumes "load_params example_provider 0 2 ''results'' None bbox props [] []
           = Inr (example_request 0 2\<lparr>p_filters := f\<rparr>)"
  shows "fst (query int_float (exact_remote example_rows) example_provider 0 2 ''results'' bbox None
           props [] [] False None) = [example_request 0 2\<lparr>p_filters := f\<rparr>]"
proof -
  let ?v = "[example_feature 1, example_feature 2]"
  let ?r = "\<lparr>r_fields = [], r_total = Some 10, r_limit = 2,
          r_records = [example_row 1, example_row 2]\<rparr> :: json result"
  have mf: "make_features int_float example_provider False (r_records ?r) = Inr ?v"
    by (simp add: make_features_def example_make_feature)
  have nf: "numFeatures example_provider = Some 10"
    by (simp add: example_provider_def)
  have "min (r_limit ?r) 10 \<le> int (length ?v)" by simp
  then have "fetch_loop int_float (exact_remote example_rows) example_provider False (int (length ?v))
          (min (r_limit ?r) 10) (example_request 0 2\<lparr>p_filters := f\<rparr>)
          [example_request 0 2\<lparr>p_filters := f\<rparr>] ?v
        = ([example_request 0 2\<lparr>p_filters := f\<rparr>], Inr ?v)"
    by (rule fetch_loop_done)
  with load_results_loop [where resulttype = "''results''" and dt = None and q = None,
      OF _ assms example_page_0_2 mf nf]
  show ?thesis by (simp add: query_def)
qed

theorem bbox_only_gates_filters_witness:
  "fst (query int_float (exact_remote example_rows) example_provider 0 2 ''results'' [0, 0, 1, 1]
          None [(''name'', JStr ''foo'')] [] [] False None)
     = [example_request 0 2\<lparr>p_filters := Some (make_where [(''name'', JStr ''foo'')] [])\<rparr>]
   \<and> fst (query int_float (exact_remote example_rows) example_provider 0 2 ''results'' []
          None [(''name'', JStr ''foo'')] [] [] False None)
     = [example_request 0 2\<lparr>p_filters := Some (make_where [(''name'', JStr ''foo'')] [])\<rparr>]
   \<and> p_filters (hd (fst (query int_float (exact_remote example_rows) example_provider 0 2
          ''results'' [0, 0, 1, 1] None [(''name'', JStr ''foo'')] [] [] False None)))
     = Some (make_where [(''name'', JStr ''foo'')] [])"
proof -
  let ?props = "[(''name'', JStr ''foo'')]"
  let ?q = "fst (query int_float (exact_remote example_rows) example_provider 0 2 ''results''
          [0, 0, 1, 1] None ?props [] [] False None)"
  let ?q' = "fst (query int_float (exact_remote example_rows) example_provider 0 2 ''results''
          [] None ?props [] [] False None)"
  have a: "?q = [example_request 0 2\<lparr>p_filters := Some (make_where ?props [])\<rparr>]"
    by (rule example_query_0_2)
      (simp add: load_params_def example_provider_def example_request_def set_union_def)
  have b: "?q' = [example_request 0 2\<lparr>p_filters := Some (make_where ?props [])\<rparr>]"
    by (rule example_query_0_2)
      (simp add: load_params_def example_provider_def example_request_def set_union_def)
  from a have "hd ?q \<in> set ?q" by simp
  with bbox_only_gates_filters [where flt = int_float and http = "exact_remote example_rows"
      and st = example_provider and offset = 0 and limit = 2 and resulttype = "''results''"
      and bbox = "[0, 0, 1, 1]" and dt = None and props = ?props and sortby = "[]" and sel = "[]"
      and skip = False and q = None, THEN conjunct1]
  have c: "p_filters (hd ?q) = Some (make_where ?props [])"
    by fastforce
  from a b c show ?thesis by blast
qed

lemma get_fields_frame:
  "id_field (fst (get_fields http st)) = id_field st
   \<and> x_field (fst (get_fields http st)) = x_field st
   \<and> y_field (fst (get_fields http st)) = y_field st
   \<and> properties (fst (get_fields http st))
       = (if fields_cache st = [] \<and> properties st \<noteq> []
          then set_union (properties st) [id_field st, x_field st, y_field st]
          else properties st)"
  by (simp add: get_fields_def Let_def split: option.splits sum.splits)

lemma init_provider:
  assumes "init http pd = Inr st"
  shows "id_field st = pd_id_field pd" and "x_field st = pd_x_field pd"
    and "y_field st = pd_y_field pd"
    and "properties st
         = (if pd_properties pd \<noteq> []
            then set_union (pd_properties pd) [pd_id_field pd, pd_x_field pd, pd_y_field pd]
            else pd_properties pd)"
proof -
  let ?st = "\<lparr>data = pd_data pd, resource_id = pd_resource_id pd, id_field = pd_id_field pd,
                 x_field = pd_x_field pd, y_field = pd_y_field pd, properties = pd_properties pd,
                 fields_cache = [], numFeatures = None\<rparr>"
  from assms have st: "st = fst (get_fields http ?st)"
    by (auto simp: init_def Let_def split: prod.splits sum.splits)
  show "id_field st = pd_id_field pd" "x_field st = pd_x_field pd" "y_field st = pd_y_field pd"
    "properties st
         = (if pd_properties pd \<noteq> []
            then set_union (pd_properties pd) [pd_id_field pd, pd_x_field pd, pd_y_field pd]
            else pd_properties pd)"
    unfolding st using get_fields_frame [of http ?st] by simp_all
qed

text \<open>
  Claim C10. When the provider is constructed with a non-empty projection, the stored
  projection becomes its union with the id field and the two coordinate fields. A later
  \<open>get_fields\<close> keeps that set, and \<open>_load\<close> does not change the provider. Every
  request \<open>_load\<close> issues afterwards, for \<open>query\<close> and for \<open>get\<close>, carries a
  \<open>fields\<close> parameter that joins the stored projection and the selected properties,
  the id field and both coordinate fields among them, whatever \<open>select_properties\<close> is.
\<close>

theorem discovery_adds_reserved_fields:
  assumes "init http_init pd = Inr st" and "pd_properties pd \<noteq> []"
  shows "set (properties st) = set (pd_properties pd) \<union> {id_field st, x_field st, y_field st}
    \<and> set (properties (fst (get_fields http_again st))) = set (properties st)
    \<and> (\<forall>p \<in> set (fst (load flt http st offset limit resulttype ident bbox dt props sortby sel skip q)).
         p_fields p = Some (join '','' (set_union (properties st) sel))
         \<and> set (set_union (properties st) sel) = set (properties st) \<union> set sel
         \<and> {id_field st, x_field st, y_field st} \<subseteq> set (set_union (properties st) sel))"
proof -
  note ip = init_provider [OF assms(1)]
  from ip assms(2) have a:
    "set (properties st) = set (pd_properties pd) \<union> {id_field st, x_field st, y_field st}"
    by (auto simp: set_union_def)
  from a have ne: "properties st \<noteq> []" by auto
  from a have b: "set (properties (fst (get_fields http_again st))) = set (properties st)"
    using get_fields_frame [of http_again st] by (auto simp: set_union_def)
  have c: "\<forall>p \<in> set (fst (load flt http st offset limit resulttype ident bbox dt props sortby sel skip q)).
         p_fields p = Some (join '','' (set_union (properties st) sel))
         \<and> set (set_union (properties st) sel) = set (properties st) \<union> set sel
         \<and> {id_field st, x_field st, y_field st} \<subseteq> set (set_union (properties st) sel)"
  proof
    fix p
    assume "p \<in> set (fst (load flt http st offset limit resulttype ident bbox dt props sortby sel skip q))"
    then obtain ps where
      "load_params st offset limit resulttype ident bbox props sortby sel = Inr ps"
      and "p_fields p = p_fields ps"
      by (blast dest: load_requests)
    with ne have "p_fields p = Some (join '','' (set_union (properties st) sel))"
      by (simp add: load_params_basic)
    with a show "p_fields p = Some (join '','' (set_union (properties st) sel))
         \<and> set (set_union (properties st) sel) = set (properties st) \<union> set sel
         \<and> {id_field st, x_field st, y_field st} \<subseteq> set (set_union (properties st) sel)"
      by (auto simp: set_union_def)
  qed
  from a b c show ?thesis by blast
qed


lemma example_init: "init example_discovery example_def = Inr example_provider"
  by (simp add: init_def get_fields_def example_discovery_def example_def_def example_provider_def
      set_union_def pop_def dict_of_pairs_def)

theorem discovery_adds_reserved_fields_witness:
  "init example_discovery example_def = Inr example_provider
   \<and> pd_properties example_def \<noteq> []
   \<and> set (properties example_provider) = {''name'', ''id'', ''x'', ''y''}
   \<and> fst (query int_float (exact_remote example_rows) example_provider 0 2 ''results'' [] None
             [] [] [] False None) = [example_request 0 2]
   \<and> p_fields (example_request 0 2) = Some ''name,id,x,y''"
proof -
  let ?q = "fst (load int_float (exact_remote example_rows) example_provider 0 2 ''results'' None
             [] None [] [] [] False None)"
  have h2: "pd_properties example_def \<noteq> []"
    by (simp add: example_def_def)
  note th = discovery_adds_reserved_fields [OF example_init h2, where flt = int_float
      and http = "exact_remote example_rows" and offset = 0 and limit = 2
      and resulttype = "''results''" and ident = None and bbox = "[]" and dt = None
      and props = "[]" and sortby = "[]" and sel = "[]" and skip = False and q = None
      and http_again = example_discovery]
  have "example_request 0 2\<lparr>p_filters := None\<rparr> = example_request 0 2"
    by (simp add: example_request_def)
  with example_query_0_2 [of "[]" "[]" None] example_load_params [of 0 2]
  have a: "?q = [example_request 0 2]"
    by (simp add: query_def)
  from th have "set (properties example_provider)
      = set (pd_properties example_def)
        \<union> {id_field example_provider, x_field example_provider, y_field example_provider}"
    by blast
  then have b: "set (properties example_provider) = {''name'', ''id'', ''x'', ''y''}"
    by (simp add: example_def_def example_provider_def insert_commute)
  from th a have "p_fields (example_request 0 2)
      = Some (join '','' (set_union (properties example_provider) []))"
    by simp
  then have c: "p_fields (example_request 0 2) = Some ''name,id,x,y''"
    by (simp add: example_provider_def set_union_def)
  from example_init h2 a b c show ?thesis
    by (simp add: query_def)
qed

subsection \<open>The size of the result\<close>

lemma http_get_capped_remote:
  "http_get (capped_remote cap rows) n ps
   = Inr \<lparr>r_fields = [], r_total = Some (int (length rows)), r_limit = p_limit ps,
          r_records = page rows (min cap (nat (p_limit ps))) ps\<rparr>"
  by (simp add: http_get_def capped_remote_def codes_bad_def)

text \<open>
  Claim C1. The claim is that \<open>numberReturned\<close> never exceeds the limit of the caller;
  the docstrings of \<open>query\<close> and \<open>_load\<close> say the same of \<open>limit\<close>: number of
  records to return. The code does not keep it. The loop aims at \<open>hits_\<close>, the minimum
  of the limit and the cached total, but it appends every page whole and never cuts the
  list. Here the limit is 3, the cached total is 10, and the remote reports the limit 3
  and sends at most two rows for one call: the first page has two rows, which is less
  than \<open>hits_\<close> = 3, the loop fetches the next two, and the collection returned has four
  features and \<open>numberReturned\<close> 4.
\<close>

theorem query_exceeds_limit:
  "query int_float (capped_remote 2 example_rows) example_provider 0 3 ''results'' [] None [] []
     [] False None
   = ([example_request 0 3, example_request 2 3],
      Inr \<lparr>fc_type = ''FeatureCollection'',
            features = [example_feature 1, example_feature 2, example_feature 3, example_feature 4],
            numberMatched = None, numberReturned = Some 4\<rparr>)
   \<and> (3 :: int) < 4"
proof -
  let ?http = "capped_remote 2 example_rows :: nat \<Rightarrow> params \<Rightarrow> json response"
  let ?v = "[example_feature 1, example_feature 2]"
  let ?fs = "[example_feature 3, example_feature 4]"
  let ?r = "\<lparr>r_fields = [], r_total = Some 10, r_limit = 3,
              r_records = [example_row 1, example_row 2]\<rparr> :: json result"
  let ?r' = "\<lparr>r_fields = [], r_total = Some 10, r_limit = 3,
              r_records = [example_row 3, example_row 4]\<rparr> :: json result"
  have next_req: "(example_request 0 3)\<lparr>p_offset := Some (0 + int (length ?v))\<rparr> = example_request 2 3"
    by (simp add: example_request_def)
  have hg: "http_get ?http 0 (example_request 0 3) = Inr ?r"
    by (simp add: http_get_capped_remote page_def example_rows_def example_request_def)
  have hg': "http_get ?http (length [example_request 0 3])
               ((example_request 0 3)\<lparr>p_offset := Some (0 + int (length ?v))\<rparr>) = Inr ?r'"
    unfolding next_req
    by (simp add: http_get_capped_remote page_def example_rows_def example_request_def)
  have mf: "make_features int_float example_provider False (r_records ?r) = Inr ?v"
    by (simp add: make_features_def example_make_feature)
  have mf': "make_features int_float example_provider False (r_records ?r') = Inr ?fs"
    by (simp add: make_features_def example_make_feature)
  have nf: "numFeatures example_provider = Some 10"
    by (simp add: example_provider_def)
  have "fetch_loop int_float ?http example_provider False (int (length ?v)) (min (r_limit ?r) 10)
          (example_request 0 3) [example_request 0 3] ?v
        = fetch_loop int_float ?http example_provider False (int (length ?v)) (min (r_limit ?r) 10)
            ((example_request 0 3)\<lparr>p_offset := Some (0 + int (length ?v))\<rparr>)
            ([example_request 0 3] @ [(example_request 0 3)\<lparr>p_offset := Some (0 + int (length ?v))\<rparr>])
            (?v @ ?fs)"
  proof (rule fetch_loop_more [OF _ _ hg' mf'])
    show "int (length ?v) < min (r_limit ?r) 10" by simp
    show "p_offset (example_request 0 3) = Some 0" by (simp add: example_request_def)
    show "?fs \<noteq> []" by simp
  qed
  also have "\<dots> = ([example_request 0 3] @ [(example_request 0 3)\<lparr>p_offset := Some (0 + int (length ?v))\<rparr>],
                    Inr (?v @ ?fs))"
    by (rule fetch_loop_done) simp
  finally have loop:
    "fetch_loop int_float ?http example_provider False (int (length ?v)) (min (r_limit ?r) 10)
          (example_request 0 3) [example_request 0 3] ?v
     = ([example_request 0 3, example_request 2 3], Inr (?v @ ?fs))"
    using next_req by simp
  from load_results_loop [where resulttype = "''results''" and dt = None and q = None,
      OF _ example_load_params hg mf nf] loop
  show ?thesis by (simp add: query_def)
qed

subsection \<open>\<open>get\<close>\<close>










end
